theory Spec2Isabelle
  imports Main "HOL-Library.Word"
begin

section \<open>Package ward: a client of the Ward Trucking XML API\<close>

text \<open>
  A shallow embedding of \<^verbatim>\<open>ward.go\<close>: the package-level configuration, the request
  and response structures, and the two operations \<^verbatim>\<open>RequestPickup\<close> and
  \<^verbatim>\<open>RateQuote\<close>. The source file holds the current revision of the package (lines 1
  to 380) followed by an earlier one, which has the pickup request only and calls the
  endpoint variable \<^verbatim>\<open>wardURL\<close>; the embedding follows the current revision.

  What the package calls and does not define is the standard library: \<^verbatim>\<open>xml.Marshal\<close>,
  \<^verbatim>\<open>http.Client.Post\<close>, \<^verbatim>\<open>ioutil.ReadAll\<close>, \<^verbatim>\<open>xml.Unmarshal\<close> and the logger.
  The XML functions and the network are parameters of the model (the record \<open>world\<close>
  below), so every theorem holds for any behaviour of the XML library and of the
  endpoint. Everything observable that an operation does is part of its result: the
  receiver as the call leaves it, the two returned values, the HTTP calls issued and the
  calls made to the logger.
\<close>

subsection \<open>Base types of Go\<close>

text \<open>
  \<^verbatim>\<open>uint\<close> is a 64-bit word (its width on 64-bit platforms); the package only stores
  such values. \<^verbatim>\<open>float64\<close> is kept as its 64-bit pattern: the package never computes
  with a float. \<^verbatim>\<open>time.Duration\<close> is an \<^verbatim>\<open>int64\<close> count of nanoseconds: a 64-bit
  word read with \<open>sint\<close>, whose multiplication wraps around as Go's does.
\<close>

type_synonym uint = "64 word"
type_synonym float64 = "64 word"
type_synonym Duration = "64 word"

definition Second :: Duration where
  "Second = 1000000000"

text \<open>
  Errors: \<open>New\<close> and \<open>Wrap\<close> are those of \<^verbatim>\<open>github.com/pkg/errors\<close>; \<open>Foreign\<close> is an
  error value that comes out of the standard library, with its message.
\<close>

datatype error = Foreign string | New string | Wrap error string

fun Error :: "error \<Rightarrow> string" where
  "Error (Foreign m) = m"
| "Error (New m) = m"
| "Error (Wrap e m) = m @ '': '' @ Error e"

subsection \<open>Package-level constants and variables\<close>

definition pickupRequestTestURL :: string where
  "pickupRequestTestURL = ''http://208.51.75.23:6082/cgi-bin/map/PICKUPTEST''"

definition pickupRequestProductionURL :: string where
  "pickupRequestProductionURL = ''http://208.51.75.23:6082/cgi-bin/map/PICKUP''"

definition rateQuoteURL :: string where
  "rateQuoteURL = ''http://208.51.75.23:6082/cgi-bin/map/RATEQUOTE''"

text \<open>
  The two package variables that the package assigns: \<^verbatim>\<open>pickupRequestURL\<close> and
  \<^verbatim>\<open>timeout\<close>. Both are unexported, so only the package's own functions change them.
\<close>

record globals =
  pickupRequestURL :: string
  timeout :: Duration

text \<open>Their initial values: \<^verbatim>\<open>pickupRequestTestURL\<close> and \<^verbatim>\<open>10 * time.Second\<close>.\<close>

definition initial :: globals where
  "initial = \<lparr>pickupRequestURL = pickupRequestTestURL, timeout = 10 * Second\<rparr>"

text \<open>
  \<^verbatim>\<open>xsiAttr\<close>, \<^verbatim>\<open>xsdAttr\<close> and \<^verbatim>\<open>soap12Attr\<close> are declared with \<^verbatim>\<open>var\<close>, but nothing
  in the package assigns them and they are unexported: they are constants here.
\<close>

definition xsiAttr :: string where
  "xsiAttr = ''http://www.w3.org/2001/XMLSchema-instance''"

definition xsdAttr :: string where
  "xsdAttr = ''http://www.w3.org/2001/XMLSchema''"

definition soap12Attr :: string where
  "soap12Attr = ''http://www.w3.org/2003/05/soap-envelope''"

text \<open>\<^verbatim>\<open>SetProductionMode\<close> ignores its argument.\<close>

definition SetProductionMode :: "bool \<Rightarrow> globals \<Rightarrow> globals" where
  "SetProductionMode yes g = g\<lparr>pickupRequestURL := pickupRequestProductionURL\<rparr>"

text \<open>\<^verbatim>\<open>timeout = time.Duration(seconds * time.Second)\<close>, an \<^verbatim>\<open>int64\<close> product.\<close>

definition SetTimeout :: "Duration \<Rightarrow> globals \<Rightarrow> globals" where
  "SetTimeout seconds g = g\<lparr>timeout := seconds * Second\<rparr>"

subsection \<open>Request and response structures\<close>

text \<open>
  One record per struct, with the struct's field names and field order. The struct tags
  (element names, \<^verbatim>\<open>attr\<close>, parent paths such as
  \<^verbatim>\<open>soap12:Body>request>ShipperInformation\<close>) are read by \<^verbatim>\<open>encoding/xml\<close> only;
  they belong to the (un)marshalling functions taken as parameters below. A field name
  that several structs share is written with its record's name where it is used.
\<close>

record xml_Name =
  Space :: string
  Local :: string

record PickupRequestShipperInformation =
  ShipperCode :: string
  ShipperName :: string
  ShipperAddress1 :: string
  ShipperAddress2 :: string
  ShipperCity :: string
  ShipperState :: string
  ShipperZipcode :: string
  ShipperContactName :: string
  ShipperContactTelephone :: string
  ShipperContactEmail :: string
  ShipperReadyTime :: string
  ShipperCloseTime :: string
  PickupDate :: string
  ThirdParty :: string
  ThirdPartyName :: string
  ThirdPartyContactName :: string
  ThirdPartyContactTelephone :: string
  ThirdPartyContactEmail :: string
  WardAssuredContactName :: string
  WardAssuredContactTelephone :: string
  WardAssuredContactEmail :: string
  ShipperRestriction :: string
  DriverNote1 :: string
  DriverNote2 :: string
  DriverNote3 :: string
  RequestOrigin :: string
  RequestorUser :: string
  RequestorRole :: string
  RequestorContactName :: string
  RequestorContactTelephone :: string
  RequestorContactEmail :: string

record PickupRequestShipment =
  Pieces :: uint
  PackageCode :: string
  Weight :: uint
  ConsigneeCode :: string
  ConsigneeName :: string
  ConsigneeAddress1 :: string
  ConsigneeAddress2 :: string
  ConsigneeCity :: string
  ConsigneeState :: string
  ConsigneeZipcode :: string
  ShipperRoutingSCAC :: string
  Hazardous :: string
  Freezable :: string
  DeliveryAppntFlag :: string
  DeliveryAppntDate :: string
  WardAssured12PM :: string
  WardAssured03PM :: string
  WardAssuredTimeDefinite :: string
  WardAssuredTimeDefiniteStart :: string
  WardAssuredTimeDefiniteEnd :: string
  FullValue :: string
  FullValueInsuredAmount :: string
  NonStandardSize :: string
  NonStandardSizeDescription :: string
  RequestorReference :: string
  PickupShipmentInstruction1 :: string
  PickupShipmentInstruction2 :: string
  PickupShipmentInstruction3 :: string
  PickupShipmentInstruction4 :: string
  RequestOrigin :: string

record PickupRequest =
  XMLName :: xml_Name
  XsiAttr :: string
  XsdAttr :: string
  Soap12Attr :: string
  ShipperInfo :: PickupRequestShipperInformation
  Shipment :: PickupRequestShipment

record PickupRequestResponseResult =
  PickupConfirmation :: string
  Message :: string
  PickupTerminal :: string
  WardTelephone :: string
  WardEmail :: string

record PickupRequestResponse =
  XMLName :: xml_Name
  CreateResult :: PickupRequestResponseResult

record RateQuoteDetailItem =
  Weight :: uint
  Pieces :: uint
  Class :: uint

record RateQuoteAccessorialItem =
  Code :: string
  Description :: string
  Amount :: float64

record RateQuoteRequestInner =
  Details :: "RateQuoteDetailItem list"
  Accessorials :: "RateQuoteAccessorialItem list"
  BillingTerms :: string
  OriginCity :: string
  OriginState :: string
  OriginZipcode :: string
  DestinationCity :: string
  DestinationState :: string
  DestinationZipcode :: string
  PalletCount :: uint
  Customer :: string

record RateQuoteRequest =
  XMLName :: xml_Name
  XsiAttr :: string
  XsdAttr :: string
  Soap12Attr :: string
  Request :: RateQuoteRequestInner

record ServiceCenter =
  ID :: uint
  Name :: string
  Manager :: string
  Address :: string
  City :: string
  State :: string
  ZipCode :: string
  TransitDays :: uint
  Fax :: string
  Phone :: string

text \<open>The anonymous struct of the field \<^verbatim>\<open>CustomerService\<close>.\<close>

record CustomerService_struct =
  Phone :: string

record RateQuoteResponseRateDetails =
  Class :: string
  Weight :: uint
  Amount :: float64
  Rate :: float64
  Pieces :: uint
  RateAccessorials :: "RateQuoteAccessorialItem list"

record RateQuoteResponseResult =
  OriginServiceCenter :: ServiceCenter
  DestinationServiceCenter :: ServiceCenter
  CustomerService :: CustomerService_struct
  Customer :: string
  ShipZip :: string
  ConsZip :: string
  DiscountPercent :: float64
  DiscountAmount :: float64
  FuelSurchargePercent :: float64
  FuelSurchargeAmount :: float64
  NetCharge :: float64
  Tarrif :: string
  PricingEffectiveDate :: string
  QuoteID :: string
  RateDetails :: "RateQuoteResponseRateDetails list"

record RateQuoteResponse =
  XMLName :: xml_Name
  CreateResult :: RateQuoteResponseResult

text \<open>
  The zero values of the two response structures: what the named result
  \<^verbatim>\<open>responseData\<close> holds when the function starts.
\<close>

definition zero_Name :: xml_Name where
  "zero_Name = \<lparr>Space = [], Local = []\<rparr>"

definition zero_PickupRequestResponse :: PickupRequestResponse where
  "zero_PickupRequestResponse =
     \<lparr>PickupRequestResponse.XMLName = zero_Name,
      PickupRequestResponse.CreateResult =
        \<lparr>PickupConfirmation = [], Message = [], PickupTerminal = [], WardTelephone = [],
         WardEmail = []\<rparr>\<rparr>"

definition zero_ServiceCenter :: ServiceCenter where
  "zero_ServiceCenter =
     \<lparr>ID = 0, Name = [], Manager = [], Address = [], City = [], State = [], ZipCode = [],
      TransitDays = 0, Fax = [], ServiceCenter.Phone = []\<rparr>"

definition zero_RateQuoteResponse :: RateQuoteResponse where
  "zero_RateQuoteResponse =
     \<lparr>RateQuoteResponse.XMLName = zero_Name,
      RateQuoteResponse.CreateResult =
        \<lparr>OriginServiceCenter = zero_ServiceCenter,
         DestinationServiceCenter = zero_ServiceCenter,
         CustomerService = \<lparr>CustomerService_struct.Phone = []\<rparr>,
         RateQuoteResponseResult.Customer = [], ShipZip = [], ConsZip = [],
         DiscountPercent = 0, DiscountAmount = 0, FuelSurchargePercent = 0,
         FuelSurchargeAmount = 0, NetCharge = 0, Tarrif = [], PricingEffectiveDate = [],
         QuoteID = [], RateDetails = []\<rparr>\<rparr>"

subsection \<open>The standard library, as far as the package uses it\<close>

text \<open>
  \<^verbatim>\<open>xml.Header\<close>, the constant of \<^verbatim>\<open>encoding/xml\<close>: the XML declaration and a
  newline.
\<close>

definition xml_Header :: string where
  \<open>xml_Header = ''<?xml version="1.0" encoding="UTF-8"?>'' @ [CHR 0x0A]\<close>

text \<open>
  \<^verbatim>\<open>http.Client\<close> with the one field the package sets. A response is its body, a
  stream: the bytes it yields and the error that ends it (\<open>None\<close> for a clean end).
  \<^verbatim>\<open>ioutil.ReadAll\<close> returns both. \<^verbatim>\<open>defer res.Body.Close()\<close> has no effect that the
  package observes.
\<close>

record http_Client =
  Timeout :: Duration

datatype Reader = Reader string "error option"

record http_Response =
  Body :: Reader

fun ReadAll :: "Reader \<Rightarrow> string \<times> error option" where
  "ReadAll (Reader bytes e) = (bytes, e)"

text \<open>One call of \<^verbatim>\<open>httpClient.Post(url, contentType, body)\<close>, as it is issued.\<close>

record http_Post =
  client :: http_Client
  url :: string
  contentType :: string
  body :: string

text \<open>
  The argument of \<^verbatim>\<open>log.Println(errorData)\<close> is a \<^verbatim>\<open>map[string]interface{}\<close>: a
  list of keys with their values as printed.
\<close>

type_synonym errorData = "(string \<times> string) list"

datatype log_call = Println string | Printf string | Println_errorData errorData

text \<open>
  What the package does not decide. \<^verbatim>\<open>xml.Marshal\<close> at the two request types;
  \<^verbatim>\<open>http.Client.Post\<close>; \<^verbatim>\<open>xml.Unmarshal\<close> at the two response types and at
  \<^verbatim>\<open>map[string]interface{}\<close>. \<^verbatim>\<open>Unmarshal\<close> takes the value its target holds and
  returns the value it leaves there, with its error (\<open>None\<close> for \<^verbatim>\<open>nil\<close>): it may
  fill a part of the target and fail.
\<close>

record world =
  Marshal_PickupRequest :: "PickupRequest \<Rightarrow> error + string"
  Marshal_RateQuoteRequest :: "RateQuoteRequest \<Rightarrow> error + string"
  Post :: "http_Client \<Rightarrow> string \<Rightarrow> string \<Rightarrow> string \<Rightarrow> error + http_Response"
  Unmarshal_PickupRequestResponse ::
    "string \<Rightarrow> PickupRequestResponse \<Rightarrow> PickupRequestResponse \<times> error option"
  Unmarshal_RateQuoteResponse ::
    "string \<Rightarrow> RateQuoteResponse \<Rightarrow> RateQuoteResponse \<times> error option"
  Unmarshal_errorData :: "string \<Rightarrow> errorData \<Rightarrow> errorData \<times> error option"

subsection \<open>RequestPickup and RateQuote\<close>

text \<open>
  The result of a call: the receiver \<^verbatim>\<open>*p\<close> as the call leaves it, the two returned
  values (\<open>err = None\<close> is \<^verbatim>\<open>nil\<close>), the HTTP calls issued and the logger calls made,
  both in order.
\<close>

record ('p, 'r) outcome =
  receiver :: 'p
  responseData :: 'r
  err :: "error option"
  posted :: "http_Post list"
  logged :: "log_call list"

definition RequestPickup ::
  "world \<Rightarrow> globals \<Rightarrow> PickupRequest \<Rightarrow> (PickupRequest, PickupRequestResponse) outcome" where
  "RequestPickup w g p0 =
    (let p = p0\<lparr>PickupRequest.XsdAttr := xsdAttr, PickupRequest.XsiAttr := xsiAttr,
                 PickupRequest.Soap12Attr := soap12Attr\<rparr>;
         responseData0 = zero_PickupRequestResponse
     in case Marshal_PickupRequest w p of
          Inl e \<Rightarrow>
            \<lparr>receiver = p, responseData = responseData0,
             err = Some (Wrap e ''ward.RequestPickup - could not marshal xml''),
             posted = [], logged = []\<rparr>
        | Inr xmlBytes \<Rightarrow>
            (let xmlString = xml_Header @ xmlBytes @ [CHR 0x0A];
                 httpClient = \<lparr>Timeout = timeout g\<rparr>;
                 call = \<lparr>client = httpClient, url = pickupRequestURL g,
                         contentType = ''application/x-www-form-encoded'', body = xmlString\<rparr>
             in case Post w httpClient (pickupRequestURL g)
                       ''application/x-www-form-encoded'' xmlString of
                  Inl e \<Rightarrow>
                    \<lparr>receiver = p, responseData = responseData0,
                     err = Some (Wrap e ''ward.RequestPickup - could not make post request''),
                     posted = [call], logged = []\<rparr>
                | Inr res \<Rightarrow>
                    (case ReadAll (Body res) of
                       (bytes, Some e) \<Rightarrow>
                         \<lparr>receiver = p, responseData = responseData0,
                          err = Some (Wrap e ''ward.RequestPickup - could not read response 1''),
                          posted = [call], logged = []\<rparr>
                     | (bytes, None) \<Rightarrow>
                         (case Unmarshal_PickupRequestResponse w bytes responseData0 of
                            (responseData1, Some e) \<Rightarrow>
                              \<lparr>receiver = p, responseData = responseData1,
                               err = Some (Wrap e
                                 ''ward.RequestPickup - could not read response 2''),
                               posted = [call], logged = []\<rparr>
                          | (responseData1, None) \<Rightarrow>
                              if PickupConfirmation
                                   (PickupRequestResponse.CreateResult responseData1) = []
                              then
                                \<lparr>receiver = p, responseData = responseData1,
                                 err = Some (New ''ward.RequestPickup - pickup request failed''),
                                 posted = [call],
                                 logged =
                                   [Println ''ward.RequestPickup - pickup request failed'',
                                    Printf bytes,
                                    Println_errorData
                                      (fst (Unmarshal_errorData w bytes []))]\<rparr>
                              else
                                \<lparr>receiver = p, responseData = responseData1, err = None,
                                 posted = [call], logged = []\<rparr>))))"

definition RateQuote ::
  "world \<Rightarrow> globals \<Rightarrow> RateQuoteRequest \<Rightarrow> (RateQuoteRequest, RateQuoteResponse) outcome" where
  "RateQuote w g p0 =
    (let p = p0\<lparr>RateQuoteRequest.XsdAttr := xsdAttr, RateQuoteRequest.XsiAttr := xsiAttr,
                 RateQuoteRequest.Soap12Attr := soap12Attr\<rparr>;
         responseData0 = zero_RateQuoteResponse
     in case Marshal_RateQuoteRequest w p of
          Inl e \<Rightarrow>
            \<lparr>receiver = p, responseData = responseData0,
             err = Some (Wrap e ''ward.RateQuote - could not marshal xml''),
             posted = [], logged = []\<rparr>
        | Inr xmlBytes \<Rightarrow>
            (let xmlString = xml_Header @ xmlBytes @ [CHR 0x0A];
                 httpClient = \<lparr>Timeout = timeout g\<rparr>;
                 call = \<lparr>client = httpClient, url = rateQuoteURL,
                         contentType = ''application/x-www-form-encoded'', body = xmlString\<rparr>
             in case Post w httpClient rateQuoteURL
                       ''application/x-www-form-encoded'' xmlString of
                  Inl e \<Rightarrow>
                    \<lparr>receiver = p, responseData = responseData0,
                     err = Some (Wrap e ''ward.RateQuote - could not make post request''),
                     posted = [call], logged = []\<rparr>
                | Inr res \<Rightarrow>
                    (case ReadAll (Body res) of
                       (bytes, Some e) \<Rightarrow>
                         \<lparr>receiver = p, responseData = responseData0,
                          err = Some (Wrap e ''ward.RateQuote - could not read response 1''),
                          posted = [call], logged = []\<rparr>
                     | (bytes, None) \<Rightarrow>
                         (case Unmarshal_RateQuoteResponse w bytes responseData0 of
                            (responseData1, Some e) \<Rightarrow>
                              \<lparr>receiver = p, responseData = responseData1,
                               err = Some (Wrap e ''ward.RateQuote - could not read response 2''),
                               posted = [call], logged = []\<rparr>
                          | (responseData1, None) \<Rightarrow>
                              \<lparr>receiver = p, responseData = responseData1, err = None,
                               posted = [call], logged = []\<rparr>))))"

subsection \<open>Programs that use the package\<close>

text \<open>
  The exported operations are the two setters and the two request methods. A client
  program is a sequence of such calls, each made in the world it finds. Only the setters
  assign a package variable.
\<close>

datatype api_call =
  Call_SetProductionMode bool
| Call_SetTimeout Duration
| Call_RequestPickup PickupRequest
| Call_RateQuote RateQuoteRequest

fun exec :: "globals \<Rightarrow> api_call \<Rightarrow> globals" where
  "exec g (Call_SetProductionMode yes) = SetProductionMode yes g"
| "exec g (Call_SetTimeout seconds) = SetTimeout seconds g"
| "exec g (Call_RequestPickup p) = g"
| "exec g (Call_RateQuote p) = g"

fun posts_of :: "world \<Rightarrow> globals \<Rightarrow> api_call \<Rightarrow> http_Post list" where
  "posts_of w g (Call_SetProductionMode yes) = []"
| "posts_of w g (Call_SetTimeout seconds) = []"
| "posts_of w g (Call_RequestPickup p) = posted (RequestPickup w g p)"
| "posts_of w g (Call_RateQuote p) = posted (RateQuote w g p)"

fun run :: "globals \<Rightarrow> (world \<times> api_call) list \<Rightarrow> globals" where
  "run g [] = g"
| "run g ((w, c) # cs) = run (exec g c) cs"

fun run_posts :: "globals \<Rightarrow> (world \<times> api_call) list \<Rightarrow> (api_call \<times> http_Post) list" where
  "run_posts g [] = []"
| "run_posts g ((w, c) # cs) = map (Pair c) (posts_of w g c) @ run_posts (exec g c) cs"

fun is_setter :: "api_call \<Rightarrow> bool" where
  "is_setter (Call_SetProductionMode yes) = True"
| "is_setter (Call_SetTimeout seconds) = True"
| "is_setter (Call_RequestPickup p) = False"
| "is_setter (Call_RateQuote p) = False"

fun is_pickup :: "api_call \<Rightarrow> bool" where
  "is_pickup (Call_RequestPickup p) = True"
| "is_pickup c = False"

fun is_rate_quote :: "api_call \<Rightarrow> bool" where
  "is_rate_quote (Call_RateQuote p) = True"
| "is_rate_quote c = False"

subsection \<open>Sample requests and stub worlds\<close>

text \<open>
  A pickup request (shipper 12345 in 19103; 3 pieces, 500 lbs, to 60601) and a rate-quote
  request, to run the operations on. The namespace fields hold a caller's own text,
  which the operations overwrite.
\<close>

definition sample_ShipperInfo :: PickupRequestShipperInformation where
  "sample_ShipperInfo =
     \<lparr>ShipperCode = ''12345'', ShipperName = [], ShipperAddress1 = [],
      ShipperAddress2 = [], ShipperCity = [], ShipperState = [],
      ShipperZipcode = ''19103'', ShipperContactName = [], ShipperContactTelephone = [],
      ShipperContactEmail = [], ShipperReadyTime = [], ShipperCloseTime = [],
      PickupDate = [], ThirdParty = [], ThirdPartyName = [], ThirdPartyContactName = [],
      ThirdPartyContactTelephone = [], ThirdPartyContactEmail = [],
      WardAssuredContactName = [], WardAssuredContactTelephone = [],
      WardAssuredContactEmail = [], ShipperRestriction = [], DriverNote1 = [],
      DriverNote2 = [], DriverNote3 = [],
      PickupRequestShipperInformation.RequestOrigin = [], RequestorUser = [],
      RequestorRole = [], RequestorContactName = [], RequestorContactTelephone = [],
      RequestorContactEmail = []\<rparr>"

definition sample_Shipment :: PickupRequestShipment where
  "sample_Shipment =
     \<lparr>PickupRequestShipment.Pieces = 3, PackageCode = [],
      PickupRequestShipment.Weight = 500, ConsigneeCode = [], ConsigneeName = [],
      ConsigneeAddress1 = [], ConsigneeAddress2 = [], ConsigneeCity = [],
      ConsigneeState = [], ConsigneeZipcode = ''60601'', ShipperRoutingSCAC = [],
      Hazardous = [], Freezable = [], DeliveryAppntFlag = [], DeliveryAppntDate = [],
      WardAssured12PM = [], WardAssured03PM = [], WardAssuredTimeDefinite = [],
      WardAssuredTimeDefiniteStart = [], WardAssuredTimeDefiniteEnd = [], FullValue = [],
      FullValueInsuredAmount = [], NonStandardSize = [], NonStandardSizeDescription = [],
      RequestorReference = [], PickupShipmentInstruction1 = [],
      PickupShipmentInstruction2 = [], PickupShipmentInstruction3 = [],
      PickupShipmentInstruction4 = [], PickupRequestShipment.RequestOrigin = []\<rparr>"

definition sample_PickupRequest :: PickupRequest where
  "sample_PickupRequest =
     \<lparr>PickupRequest.XMLName = zero_Name, PickupRequest.XsiAttr = ''mine'',
      PickupRequest.XsdAttr = [], PickupRequest.Soap12Attr = [],
      ShipperInfo = sample_ShipperInfo, Shipment = sample_Shipment\<rparr>"

definition sample_RateQuoteRequest :: RateQuoteRequest where
  "sample_RateQuoteRequest =
     \<lparr>RateQuoteRequest.XMLName = zero_Name, RateQuoteRequest.XsiAttr = ''mine'',
      RateQuoteRequest.XsdAttr = [], RateQuoteRequest.Soap12Attr = [],
      Request =
        \<lparr>Details =
           [\<lparr>RateQuoteDetailItem.Weight = 500, RateQuoteDetailItem.Pieces = 3,
             RateQuoteDetailItem.Class = 50\<rparr>],
         Accessorials = [], BillingTerms = [], OriginCity = [], OriginState = [],
         OriginZipcode = ''19103'', DestinationCity = [], DestinationState = [],
         DestinationZipcode = ''60601'', PalletCount = 3,
         RateQuoteRequestInner.Customer = ''12345''\<rparr>\<rparr>"

text \<open>
  A stub world: marshalling yields a fixed text, the endpoint answers every POST with
  \<open>reply\<close>, and unmarshalling yields the given results whatever the body is.
\<close>

definition stub_world ::
  "string \<Rightarrow> PickupRequestResponse \<times> error option \<Rightarrow> RateQuoteResponse \<times> error option
     \<Rightarrow> world" where
  "stub_world reply pickup_parse quote_parse =
     \<lparr>Marshal_PickupRequest = (\<lambda>p. Inr ''<soap12:Envelope/>''),
      Marshal_RateQuoteRequest = (\<lambda>p. Inr ''<soap12:Envelope/>''),
      Post = (\<lambda>c u t b. Inr \<lparr>Body = Reader reply None\<rparr>),
      Unmarshal_PickupRequestResponse = (\<lambda>b r. pickup_parse),
      Unmarshal_RateQuoteResponse = (\<lambda>b r. quote_parse),
      Unmarshal_errorData = (\<lambda>b m. (m, Some (Foreign ''unknown type'')))\<rparr>"

text \<open>A pickup response that carries a message and a terminal, and no confirmation.\<close>

definition refused_PickupRequestResponse :: PickupRequestResponse where
  "refused_PickupRequestResponse =
     \<lparr>PickupRequestResponse.XMLName = \<lparr>Space = [], Local = ''Envelope''\<rparr>,
      PickupRequestResponse.CreateResult =
        \<lparr>PickupConfirmation = [], Message = ''INVALID SHIPPER'', PickupTerminal = ''PHL'',
         WardTelephone = [], WardEmail = []\<rparr>\<rparr>"

text \<open>
  Three worlds: one whose endpoint answers with nothing that matters and whose parser
  yields the zero responses; one whose parser yields the refused pickup response; one
  whose parser fails.
\<close>

definition quiet_world :: world where
  "quiet_world = stub_world [] (zero_PickupRequestResponse, None) (zero_RateQuoteResponse, None)"

definition refusing_world :: world where
  "refusing_world =
     stub_world ''<Envelope><Body><Fault>INVALID SHIPPER</Fault></Body></Envelope>''
       (refused_PickupRequestResponse, None) (zero_RateQuoteResponse, None)"

definition garbled_world :: world where
  "garbled_world =
     stub_world ''<Envelope><Body>''
       (zero_PickupRequestResponse, Some (Foreign ''XML syntax error: unexpected EOF''))
       (zero_RateQuoteResponse, Some (Foreign ''XML syntax error: unexpected EOF''))"

text \<open>
  Two client programs: one that also calls the setters, one that only sends requests.
\<close>

definition sample_program :: "(world \<times> api_call) list" where
  "sample_program =
     [(quiet_world, Call_RequestPickup sample_PickupRequest),
      (quiet_world, Call_SetTimeout 30),
      (quiet_world, Call_RateQuote sample_RateQuoteRequest),
      (quiet_world, Call_SetProductionMode False),
      (quiet_world, Call_RequestPickup sample_PickupRequest)]"

definition sample_requests :: "(world \<times> api_call) list" where
  "sample_requests =
     [(quiet_world, Call_RequestPickup sample_PickupRequest),
      (quiet_world, Call_RateQuote sample_RateQuoteRequest)]"

section \<open>Properties\<close>

subsection \<open>The shape of every outcome\<close>

text \<open>
  Whatever the world does, a call leaves the receiver with the three namespace fields
  set, and issues no POST when marshalling fails and exactly one otherwise.
\<close>

lemma RequestPickup_shape:
  fixes w g p
  defines "p' \<equiv> p\<lparr>PickupRequest.XsdAttr := xsdAttr, PickupRequest.XsiAttr := xsiAttr,
                    PickupRequest.Soap12Attr := soap12Attr\<rparr>"
  shows "\<exists>rd e l. RequestPickup w g p =
           \<lparr>receiver = p', responseData = rd, err = e,
            posted = (case Marshal_PickupRequest w p' of
                        Inl e \<Rightarrow> []
                      | Inr xmlBytes \<Rightarrow>
                          [\<lparr>client = \<lparr>Timeout = timeout g\<rparr>, url = pickupRequestURL g,
                            contentType = ''application/x-www-form-encoded'',
                            body = xml_Header @ xmlBytes @ [CHR 0x0A]\<rparr>]),
            logged = l\<rparr>"
proof (cases "Marshal_PickupRequest w p'")
  case (Inl e)
  then show ?thesis
    unfolding p'_def by (simp add: RequestPickup_def Let_def)
next
  case m: (Inr xmlBytes)
  show ?thesis
  proof (cases "Post w \<lparr>Timeout = timeout g\<rparr> (pickupRequestURL g)
                  ''application/x-www-form-encoded'' (xml_Header @ xmlBytes @ [CHR 0x0A])")
    case (Inl e)
    with m show ?thesis
      unfolding p'_def by (simp add: RequestPickup_def Let_def)
  next
    case r: (Inr res)
    obtain bytes re where b: "ReadAll (Body res) = (bytes, re)"
      by (cases "ReadAll (Body res)")
    obtain rd ue where u:
      "Unmarshal_PickupRequestResponse w bytes zero_PickupRequestResponse = (rd, ue)"
      by (cases "Unmarshal_PickupRequestResponse w bytes zero_PickupRequestResponse")
    show ?thesis
    proof (cases re)
      case (Some e)
      with m r b show ?thesis
        unfolding p'_def by (simp add: RequestPickup_def Let_def)
    next
      case n: None
      show ?thesis
      proof (cases ue)
        case (Some e)
        with m r b u n show ?thesis
          unfolding p'_def by (simp add: RequestPickup_def Let_def)
      next
        case None
        with m r b u n show ?thesis
          unfolding p'_def by (simp add: RequestPickup_def Let_def)
      qed
    qed
  qed
qed

lemma RateQuote_shape:
  fixes w g p
  defines "p' \<equiv> p\<lparr>RateQuoteRequest.XsdAttr := xsdAttr, RateQuoteRequest.XsiAttr := xsiAttr,
                    RateQuoteRequest.Soap12Attr := soap12Attr\<rparr>"
  shows "\<exists>rd e. RateQuote w g p =
           \<lparr>receiver = p', responseData = rd, err = e,
            posted = (case Marshal_RateQuoteRequest w p' of
                        Inl e \<Rightarrow> []
                      | Inr xmlBytes \<Rightarrow>
                          [\<lparr>client = \<lparr>Timeout = timeout g\<rparr>, url = rateQuoteURL,
                            contentType = ''application/x-www-form-encoded'',
                            body = xml_Header @ xmlBytes @ [CHR 0x0A]\<rparr>]),
            logged = []\<rparr>"
proof (cases "Marshal_RateQuoteRequest w p'")
  case (Inl e)
  then show ?thesis
    unfolding p'_def by (simp add: RateQuote_def Let_def)
next
  case m: (Inr xmlBytes)
  show ?thesis
  proof (cases "Post w \<lparr>Timeout = timeout g\<rparr> rateQuoteURL
                  ''application/x-www-form-encoded'' (xml_Header @ xmlBytes @ [CHR 0x0A])")
    case (Inl e)
    with m show ?thesis
      unfolding p'_def by (simp add: RateQuote_def Let_def)
  next
    case r: (Inr res)
    obtain bytes re where b: "ReadAll (Body res) = (bytes, re)"
      by (cases "ReadAll (Body res)")
    obtain rd ue where u:
      "Unmarshal_RateQuoteResponse w bytes zero_RateQuoteResponse = (rd, ue)"
      by (cases "Unmarshal_RateQuoteResponse w bytes zero_RateQuoteResponse")
    show ?thesis
    proof (cases re)
      case (Some e)
      with m r b show ?thesis
        unfolding p'_def by (simp add: RateQuote_def Let_def)
    next
      case n: None
      show ?thesis
      proof (cases ue)
        case (Some e)
        with m r b u n show ?thesis
          unfolding p'_def by (simp add: RateQuote_def Let_def)
      next
        case None
        with m r b u n show ?thesis
          unfolding p'_def by (simp add: RateQuote_def Let_def)
      qed
    qed
  qed
qed

lemma RequestPickup_receiver:
  "receiver (RequestPickup w g p) =
     p\<lparr>PickupRequest.XsdAttr := xsdAttr, PickupRequest.XsiAttr := xsiAttr,
       PickupRequest.Soap12Attr := soap12Attr\<rparr>"
proof -
  from RequestPickup_shape [of w g p] obtain rd e l ps where
    "RequestPickup w g p =
       \<lparr>receiver = p\<lparr>PickupRequest.XsdAttr := xsdAttr, PickupRequest.XsiAttr := xsiAttr,
                      PickupRequest.Soap12Attr := soap12Attr\<rparr>,
        responseData = rd, err = e, posted = ps, logged = l\<rparr>"
    by blast
  then show ?thesis by simp
qed

lemma RateQuote_receiver:
  "receiver (RateQuote w g p) =
     p\<lparr>RateQuoteRequest.XsdAttr := xsdAttr, RateQuoteRequest.XsiAttr := xsiAttr,
       RateQuoteRequest.Soap12Attr := soap12Attr\<rparr>"
proof -
  from RateQuote_shape [of w g p] obtain rd e l ps where
    "RateQuote w g p =
       \<lparr>receiver = p\<lparr>RateQuoteRequest.XsdAttr := xsdAttr, RateQuoteRequest.XsiAttr := xsiAttr,
                      RateQuoteRequest.Soap12Attr := soap12Attr\<rparr>,
        responseData = rd, err = e, posted = ps, logged = l\<rparr>"
    by blast
  then show ?thesis by simp
qed

lemma RequestPickup_posted:
  "posted (RequestPickup w g p) =
     (case Marshal_PickupRequest w
             (p\<lparr>PickupRequest.XsdAttr := xsdAttr, PickupRequest.XsiAttr := xsiAttr,
                PickupRequest.Soap12Attr := soap12Attr\<rparr>) of
        Inl e \<Rightarrow> []
      | Inr xmlBytes \<Rightarrow>
          [\<lparr>client = \<lparr>Timeout = timeout g\<rparr>, url = pickupRequestURL g,
            contentType = ''application/x-www-form-encoded'',
            body = xml_Header @ xmlBytes @ [CHR 0x0A]\<rparr>])"
proof -
  from RequestPickup_shape [of w g p] obtain rd e l where
    "RequestPickup w g p =
       \<lparr>receiver = p\<lparr>PickupRequest.XsdAttr := xsdAttr, PickupRequest.XsiAttr := xsiAttr,
                      PickupRequest.Soap12Attr := soap12Attr\<rparr>,
        responseData = rd, err = e,
        posted = (case Marshal_PickupRequest w
                         (p\<lparr>PickupRequest.XsdAttr := xsdAttr, PickupRequest.XsiAttr := xsiAttr,
                            PickupRequest.Soap12Attr := soap12Attr\<rparr>) of
                    Inl e \<Rightarrow> []
                  | Inr xmlBytes \<Rightarrow>
                      [\<lparr>client = \<lparr>Timeout = timeout g\<rparr>, url = pickupRequestURL g,
                        contentType = ''application/x-www-form-encoded'',
                        body = xml_Header @ xmlBytes @ [CHR 0x0A]\<rparr>]),
        logged = l\<rparr>"
    by blast
  then show ?thesis by simp
qed

lemma RateQuote_posted:
  "posted (RateQuote w g p) =
     (case Marshal_RateQuoteRequest w
             (p\<lparr>RateQuoteRequest.XsdAttr := xsdAttr, RateQuoteRequest.XsiAttr := xsiAttr,
                RateQuoteRequest.Soap12Attr := soap12Attr\<rparr>) of
        Inl e \<Rightarrow> []
      | Inr xmlBytes \<Rightarrow>
          [\<lparr>client = \<lparr>Timeout = timeout g\<rparr>, url = rateQuoteURL,
            contentType = ''application/x-www-form-encoded'',
            body = xml_Header @ xmlBytes @ [CHR 0x0A]\<rparr>])"
proof -
  from RateQuote_shape [of w g p] obtain rd e where
    "RateQuote w g p =
       \<lparr>receiver = p\<lparr>RateQuoteRequest.XsdAttr := xsdAttr, RateQuoteRequest.XsiAttr := xsiAttr,
                      RateQuoteRequest.Soap12Attr := soap12Attr\<rparr>,
        responseData = rd, err = e,
        posted = (case Marshal_RateQuoteRequest w
                         (p\<lparr>RateQuoteRequest.XsdAttr := xsdAttr, RateQuoteRequest.XsiAttr := xsiAttr,
                            RateQuoteRequest.Soap12Attr := soap12Attr\<rparr>) of
                    Inl e \<Rightarrow> []
                  | Inr xmlBytes \<Rightarrow>
                      [\<lparr>client = \<lparr>Timeout = timeout g\<rparr>, url = rateQuoteURL,
                        contentType = ''application/x-www-form-encoded'',
                        body = xml_Header @ xmlBytes @ [CHR 0x0A]\<rparr>]),
        logged = []\<rparr>"
    by blast
  then show ?thesis by simp
qed

subsection \<open>Runs\<close>

text \<open>
  The POSTs of a run take their endpoint and their timeout from the package variables
  in force at the call; a state in production mode stays there.
\<close>

lemma posts_of_pickup_url:
  "is_pickup c \<Longrightarrow> h \<in> set (posts_of w g c) \<Longrightarrow> url h = pickupRequestURL g"
  by (cases c) (auto simp: RequestPickup_posted split: sum.splits)

lemma posts_of_rate_quote_url:
  "is_rate_quote c \<Longrightarrow> h \<in> set (posts_of w g c) \<Longrightarrow> url h = rateQuoteURL"
  by (cases c) (auto simp: RateQuote_posted split: sum.splits)

lemma posts_of_Timeout:
  "h \<in> set (posts_of w g c) \<Longrightarrow> Timeout (client h) = timeout g"
  by (cases c) (auto simp: RequestPickup_posted RateQuote_posted split: sum.splits)

lemma exec_production:
  "pickupRequestURL g = pickupRequestProductionURL
     \<Longrightarrow> pickupRequestURL (exec g c) = pickupRequestProductionURL"
  by (cases c) (simp_all add: SetProductionMode_def SetTimeout_def)

lemma run_production:
  "pickupRequestURL g = pickupRequestProductionURL
     \<Longrightarrow> pickupRequestURL (run g cs) = pickupRequestProductionURL"
  by (induction g cs rule: run.induct) (simp_all add: exec_production)

lemma run_posts_production:
  "pickupRequestURL g = pickupRequestProductionURL \<Longrightarrow> (c, h) \<in> set (run_posts g cs)
     \<Longrightarrow> is_pickup c \<Longrightarrow> url h = pickupRequestProductionURL"
proof (induction g cs rule: run_posts.induct)
  case (1 g)
  then show ?case by simp
next
  case (2 g w c' cs)
  from "2.prems"(2) consider "c = c'" "h \<in> set (posts_of w g c')"
    | "(c, h) \<in> set (run_posts (exec g c') cs)"
    by auto
  then show ?case
  proof cases
    case 1
    with "2.prems" show ?thesis by (simp add: posts_of_pickup_url)
  next
    case 2
    with "2.IH" "2.prems" show ?thesis by (simp add: exec_production)
  qed
qed

lemma run_posts_rate_quote:
  "(c, h) \<in> set (run_posts g cs) \<Longrightarrow> is_rate_quote c \<Longrightarrow> url h = rateQuoteURL"
proof (induction g cs rule: run_posts.induct)
  case (1 g)
  then show ?case by simp
next
  case (2 g w c' cs)
  from "2.prems"(1) consider "c = c'" "h \<in> set (posts_of w g c')"
    | "(c, h) \<in> set (run_posts (exec g c') cs)"
    by auto
  then show ?case
  proof cases
    case 1
    with "2.prems" show ?thesis by (simp add: posts_of_rate_quote_url)
  next
    case 2
    with "2.IH" "2.prems" show ?thesis by simp
  qed
qed

lemma exec_no_setter: "\<not> is_setter c \<Longrightarrow> exec g c = g"
  by (cases c) simp_all

lemma run_no_setter: "\<forall>(w, c) \<in> set cs. \<not> is_setter c \<Longrightarrow> run g cs = g"
  by (induction g cs rule: run.induct) (simp_all add: exec_no_setter)

lemma run_posts_no_setter:
  "\<forall>(w, c) \<in> set cs. \<not> is_setter c \<Longrightarrow> (c, h) \<in> set (run_posts g cs)
     \<Longrightarrow> Timeout (client h) = timeout g \<and> (is_pickup c \<longrightarrow> url h = pickupRequestURL g)"
proof (induction g cs rule: run_posts.induct)
  case (1 g)
  then show ?case by simp
next
  case (2 g w c' cs)
  from "2.prems"(1) have ns: "\<not> is_setter c'" and rest: "\<forall>(w, c) \<in> set cs. \<not> is_setter c"
    by simp_all
  from "2.prems"(2) consider "c = c'" "h \<in> set (posts_of w g c')"
    | "(c, h) \<in> set (run_posts (exec g c') cs)"
    by auto
  then show ?case
  proof cases
    case 1
    then show ?thesis by (simp add: posts_of_pickup_url posts_of_Timeout)
  next
    case 2
    with "2.IH" [OF rest] ns show ?thesis by (simp add: exec_no_setter)
  qed
qed

subsection \<open>Configuration\<close>

text \<open>
  C3. \<^verbatim>\<open>SetTimeout\<close> stores \<^verbatim>\<open>seconds * time.Second\<close>, a product of two \<^verbatim>\<open>int64\<close>
  values that wraps around: read as a signed number, the stored timeout is the
  mathematical product \<open>d * 10^9\<close> reduced into the 64-bit signed range. It is that
  product itself whenever \<open>d\<close> lies between \<open>-9223372036\<close> and \<open>9223372036\<close>. So the
  argument counts seconds: a caller who passes a duration of \<open>n\<close> seconds
  (\<open>n * Second\<close>) gets \<open>n * 10^9\<close> seconds for \<open>n\<close> from \<open>-9\<close> to \<open>9\<close>. The pickup
  endpoint is left as it is.
\<close>

theorem SetTimeout_wraps:
  "timeout (SetTimeout d g) = d * Second
   \<and> sint (timeout (SetTimeout d g)) = signed_take_bit 63 (sint d * 1000000000)
   \<and> (- 9223372036 \<le> sint d \<and> sint d \<le> 9223372036
        \<longrightarrow> sint (timeout (SetTimeout d g)) = sint d * 1000000000)
   \<and> (- 9 \<le> n \<and> n \<le> 9
        \<longrightarrow> sint (timeout (SetTimeout (word_of_int n * Second) g))
            = n * 1000000000 * 1000000000)
   \<and> pickupRequestURL (SetTimeout d g) = pickupRequestURL g"
proof -
  have s: "sint Second = 1000000000"
    by (simp add: Second_def)
  have a: "sint (timeout (SetTimeout x g)) = signed_take_bit 63 (sint x * 1000000000)" for x
    by (simp add: SetTimeout_def sint_word_ariths s)
  have b: "sint (timeout (SetTimeout x g)) = sint x * 1000000000"
    if "- 9223372036 \<le> sint x" "sint x \<le> 9223372036" for x
  proof -
    from that have "- (2 ^ 63) \<le> sint x * 1000000000" "sint x * 1000000000 < 2 ^ 63"
      by simp_all
    then have "signed_take_bit 63 (sint x * 1000000000) = sint x * 1000000000"
      by (simp add: signed_take_bit_int_eq_self)
    with a show ?thesis by simp
  qed
  have c: "sint (timeout (SetTimeout (word_of_int n * Second) g))
             = n * 1000000000 * 1000000000"
    if "- 9 \<le> n" "n \<le> 9"
  proof -
    from that have "- (2 ^ 63) \<le> n" "n < 2 ^ 63"
      by simp_all
    then have n: "sint (word_of_int n :: Duration) = n"
      by (simp add: sint_sbintrunc' signed_take_bit_int_eq_self)
    from that have "- (2 ^ 63) \<le> n * 1000000000" "n * 1000000000 < 2 ^ 63"
      by simp_all
    then have "signed_take_bit 63 (n * 1000000000) = n * 1000000000"
      by (simp add: signed_take_bit_int_eq_self)
    then have d: "sint (word_of_int n * Second :: Duration) = n * 1000000000"
      by (simp add: sint_word_ariths s n)
    from that have "- 9223372036 \<le> n * 1000000000" "n * 1000000000 \<le> 9223372036"
      by simp_all
    with b [of "word_of_int n * Second"] d show ?thesis
      by simp
  qed
  show ?thesis
    using a [of d] b [of d] c by (simp add: SetTimeout_def)
qed

text \<open>
  The theorem at \<open>d = 30\<close> (a bare count: 30 seconds) and at \<open>n = 5\<close> (a duration of
  5 seconds becomes \<open>5 * 10^9\<close> seconds).
\<close>

theorem SetTimeout_wraps_witness:
  "sint (timeout (SetTimeout 30 initial)) = 30000000000
   \<and> sint (timeout (SetTimeout (5 * Second) initial)) = 5000000000000000000"
proof -
  have h1: "- 9223372036 \<le> sint (30 :: Duration) \<and> sint (30 :: Duration) \<le> 9223372036"
    by simp
  have h2: "- 9 \<le> (5 :: int) \<and> (5 :: int) \<le> 9"
    by simp
  from SetTimeout_wraps [of 30 initial 5] h1 h2 show ?thesis
    by (simp add: Second_def)
qed

text \<open>
  Without the bound the product is not what is stored: a duration of 10 seconds,
  \<open>10 * Second\<close>, times \<open>10^9\<close> is \<open>10^19\<close>, beyond \<open>2^63\<close>, and the stored timeout
  is negative.
\<close>

theorem SetTimeout_seconds_counterexample:
  "sint (10 * Second :: Duration) = 10000000000
   \<and> sint (timeout (SetTimeout (10 * Second) initial)) = - 8446744073709551616
   \<and> sint (timeout (SetTimeout (10 * Second) initial))
       \<noteq> sint (10 * Second :: Duration) * 1000000000"
  by (simp add: SetTimeout_def Second_def)

text \<open>
  C2. \<^verbatim>\<open>SetProductionMode\<close>, with \<open>True\<close> or with \<open>False\<close>, sets the pickup endpoint
  to the production URL and leaves the timeout alone. After it, whatever the client
  program calls next (\<open>cs\<close>, any sequence of the four exported operations), the pickup
  endpoint is still the production URL, never the test URL again, and every POST of a
  pickup call goes to the production URL. The POST of a rate-quote call goes to
  \<^verbatim>\<open>rateQuoteURL\<close> in every run from every state (\<open>g'\<close>, \<open>cs'\<close>), whether or not
  \<^verbatim>\<open>SetProductionMode\<close> was called.
\<close>

theorem SetProductionMode_one_way:
  "pickupRequestURL (SetProductionMode yes g) = pickupRequestProductionURL
   \<and> timeout (SetProductionMode yes g) = timeout g
   \<and> pickupRequestURL (run (SetProductionMode yes g) cs) = pickupRequestProductionURL
   \<and> pickupRequestURL (run (SetProductionMode yes g) cs) \<noteq> pickupRequestTestURL
   \<and> (\<forall>(c, h) \<in> set (run_posts (SetProductionMode yes g) cs).
         is_pickup c \<longrightarrow> url h = pickupRequestProductionURL)
   \<and> (\<forall>(c, h) \<in> set (run_posts g' cs').
         is_rate_quote c \<longrightarrow> url h = rateQuoteURL)"
proof -
  have p: "pickupRequestURL (SetProductionMode yes g) = pickupRequestProductionURL"
    by (simp add: SetProductionMode_def)
  have t: "timeout (SetProductionMode yes g) = timeout g"
    by (simp add: SetProductionMode_def)
  have r: "pickupRequestURL (run (SetProductionMode yes g) cs) = pickupRequestProductionURL"
    using p by (rule run_production)
  have d: "pickupRequestProductionURL \<noteq> pickupRequestTestURL"
    by (simp add: pickupRequestProductionURL_def pickupRequestTestURL_def)
  have a: "\<forall>(c, h) \<in> set (run_posts (SetProductionMode yes g) cs).
             is_pickup c \<longrightarrow> url h = pickupRequestProductionURL"
    using run_posts_production [OF p] by blast
  have b: "\<forall>(c, h) \<in> set (run_posts g' cs'). is_rate_quote c \<longrightarrow> url h = rateQuoteURL"
    using run_posts_rate_quote by blast
  from p t r d a b show ?thesis
    by simp
qed

text \<open>
  The sample program, started in production mode and started in the initial state: in
  both, its first call is a pickup and its second POST is a rate quote's.
\<close>

theorem SetProductionMode_one_way_witness:
  "map fst (run_posts (SetProductionMode False initial) sample_program)
     = [Call_RequestPickup sample_PickupRequest, Call_RateQuote sample_RateQuoteRequest,
        Call_RequestPickup sample_PickupRequest]
   \<and> url (snd (run_posts (SetProductionMode False initial) sample_program ! 0))
       = pickupRequestProductionURL
   \<and> url (snd (run_posts initial sample_program ! 1)) = rateQuoteURL"
proof -
  let ?ps = "run_posts (SetProductionMode False initial) sample_program"
  let ?qs = "run_posts initial sample_program"
  have kinds: "map fst ?ps
     = [Call_RequestPickup sample_PickupRequest, Call_RateQuote sample_RateQuoteRequest,
        Call_RequestPickup sample_PickupRequest]"
    and kinds': "map fst ?qs
     = [Call_RequestPickup sample_PickupRequest, Call_RateQuote sample_RateQuoteRequest,
        Call_RequestPickup sample_PickupRequest]"
    by (simp_all add: sample_program_def quiet_world_def RequestPickup_posted
        RateQuote_posted stub_world_def)
  from kinds have l0: "length (map fst ?ps) = 3" by simp
  then have m0: "?ps ! 0 \<in> set ?ps" by simp
  from kinds have "map fst ?ps ! 0 = Call_RequestPickup sample_PickupRequest" by simp
  then have k0: "is_pickup (fst (?ps ! 0))" using l0 by simp
  from kinds' have l: "length (map fst ?qs) = 3" by simp
  then have m1: "?qs ! 1 \<in> set ?qs" by simp
  from kinds' have "map fst ?qs ! 1 = Call_RateQuote sample_RateQuoteRequest" by simp
  then have k1: "is_rate_quote (fst (?qs ! 1))" using l by simp
  from SetProductionMode_one_way [of False initial sample_program initial sample_program]
  have a: "\<forall>(c, h) \<in> set ?ps. is_pickup c \<longrightarrow> url h = pickupRequestProductionURL"
    and b: "\<forall>(c, h) \<in> set ?qs. is_rate_quote c \<longrightarrow> url h = rateQuoteURL"
    by blast+
  from a m0 k0 have "url (snd (?ps ! 0)) = pickupRequestProductionURL"
    by (auto simp: case_prod_beta)
  moreover from b m1 k1 have "url (snd (?qs ! 1)) = rateQuoteURL"
    by (auto simp: case_prod_beta)
  ultimately show ?thesis using kinds by simp
qed

text \<open>
  C9. Initially the pickup endpoint is the test URL and the timeout is \<open>10 * Second\<close>,
  ten seconds. As long as the client program has called neither setter, the package
  variables keep these values, every POST carries a client timeout of exactly ten
  seconds, and every POST of a pickup call goes to the test URL.
\<close>

theorem defaults_before_setters:
  "pickupRequestURL initial = pickupRequestTestURL
   \<and> timeout initial = 10 * Second
   \<and> sint (timeout initial) = 10 * 1000000000
   \<and> ((\<forall>(w, c) \<in> set cs. \<not> is_setter c) \<longrightarrow>
        run initial cs = initial
        \<and> (\<forall>(c, h) \<in> set (run_posts initial cs).
              sint (Timeout (client h)) = 10 * 1000000000
              \<and> (is_pickup c \<longrightarrow> url h = pickupRequestTestURL)))"
proof -
  have u: "pickupRequestURL initial = pickupRequestTestURL"
    and t: "timeout initial = 10 * Second"
    and s: "sint (timeout initial) = 10 * 1000000000"
    by (simp_all add: initial_def Second_def)
  have "run initial cs = initial
        \<and> (\<forall>(c, h) \<in> set (run_posts initial cs).
              sint (Timeout (client h)) = 10 * 1000000000
              \<and> (is_pickup c \<longrightarrow> url h = pickupRequestTestURL))"
    if ns: "\<forall>(w, c) \<in> set cs. \<not> is_setter c"
  proof -
    have "run initial cs = initial"
      using ns by (rule run_no_setter)
    moreover have "sint (Timeout (client h)) = 10 * 1000000000
        \<and> (is_pickup c \<longrightarrow> url h = pickupRequestTestURL)"
      if "(c, h) \<in> set (run_posts initial cs)" for c h
      using run_posts_no_setter [OF ns that] u s by simp
    ultimately show ?thesis by blast
  qed
  with u t s show ?thesis by blast
qed

text \<open>A pickup and a rate quote, sent with no setter called before.\<close>

theorem defaults_before_setters_witness:
  "run initial sample_requests = initial
   \<and> map fst (run_posts initial sample_requests)
       = [Call_RequestPickup sample_PickupRequest, Call_RateQuote sample_RateQuoteRequest]
   \<and> url (snd (run_posts initial sample_requests ! 0)) = pickupRequestTestURL
   \<and> sint (Timeout (client (snd (run_posts initial sample_requests ! 0)))) = 10000000000
   \<and> sint (Timeout (client (snd (run_posts initial sample_requests ! 1)))) = 10000000000"
proof -
  let ?ps = "run_posts initial sample_requests"
  have ns: "\<forall>(w, c) \<in> set sample_requests. \<not> is_setter c"
    by (simp add: sample_requests_def)
  have kinds: "map fst ?ps
      = [Call_RequestPickup sample_PickupRequest, Call_RateQuote sample_RateQuoteRequest]"
    by (simp add: sample_requests_def quiet_world_def RequestPickup_posted
        RateQuote_posted stub_world_def)
  from kinds have l: "length (map fst ?ps) = 2" by simp
  then have m0: "?ps ! 0 \<in> set ?ps" and m1: "?ps ! 1 \<in> set ?ps" by simp_all
  from kinds have "map fst ?ps ! 0 = Call_RequestPickup sample_PickupRequest" by simp
  then have k0: "is_pickup (fst (?ps ! 0))" using l by simp
  from defaults_before_setters [of sample_requests] ns
  have r: "run initial sample_requests = initial"
    and a: "\<forall>(c, h) \<in> set ?ps. sint (Timeout (client h)) = 10 * 1000000000
              \<and> (is_pickup c \<longrightarrow> url h = pickupRequestTestURL)"
    by blast+
  from a m0 k0 have "url (snd (?ps ! 0)) = pickupRequestTestURL"
    "sint (Timeout (client (snd (?ps ! 0)))) = 10000000000"
    by (auto simp: case_prod_beta)
  moreover from a m1 have "sint (Timeout (client (snd (?ps ! 1)))) = 10000000000"
    by (auto simp: case_prod_beta)
  ultimately show ?thesis using r kinds by simp
qed

subsection \<open>Results\<close>

text \<open>
  C1. When the request was marshalled and posted, the body was read and
  \<^verbatim>\<open>xml.Unmarshal\<close> accepted it (\<open>None\<close>), and the parsed \<^verbatim>\<open>PickupConfirmation\<close> is
  the empty string, then \<^verbatim>\<open>RequestPickup\<close> returns the error
  \<^verbatim>\<open>errors.New("ward.RequestPickup - pickup request failed")\<close>, whose message is that
  text. The response it returns with the error is the parsed one: it holds no
  confirmation number, whatever its other fields hold.
\<close>

theorem RequestPickup_empty_confirmation:
  assumes "Marshal_PickupRequest w
             (p\<lparr>PickupRequest.XsdAttr := xsdAttr, PickupRequest.XsiAttr := xsiAttr,
                PickupRequest.Soap12Attr := soap12Attr\<rparr>) = Inr xmlBytes"
    and "Post w \<lparr>Timeout = timeout g\<rparr> (pickupRequestURL g)
           ''application/x-www-form-encoded'' (xml_Header @ xmlBytes @ [CHR 0x0A]) = Inr res"
    and "ReadAll (Body res) = (bytes, None)"
    and "Unmarshal_PickupRequestResponse w bytes zero_PickupRequestResponse = (parsed, None)"
    and "PickupConfirmation (PickupRequestResponse.CreateResult parsed) = []"
  shows "err (RequestPickup w g p) = Some (New ''ward.RequestPickup - pickup request failed'')
       \<and> (\<exists>e. err (RequestPickup w g p) = Some e
              \<and> Error e = ''ward.RequestPickup - pickup request failed'')
       \<and> responseData (RequestPickup w g p) = parsed
       \<and> PickupConfirmation
            (PickupRequestResponse.CreateResult (responseData (RequestPickup w g p))) = []"
  using assms by (simp add: RequestPickup_def Let_def)

text \<open>
  A response with a message and a terminal and no confirmation: the error is returned,
  together with the parsed response.
\<close>

theorem RequestPickup_empty_confirmation_witness:
  "err (RequestPickup refusing_world initial sample_PickupRequest)
     = Some (New ''ward.RequestPickup - pickup request failed'')
   \<and> responseData (RequestPickup refusing_world initial sample_PickupRequest)
     = refused_PickupRequestResponse
   \<and> Message (PickupRequestResponse.CreateResult refused_PickupRequestResponse)
     = ''INVALID SHIPPER''"
proof -
  let ?reply = "''<Envelope><Body><Fault>INVALID SHIPPER</Fault></Body></Envelope>''"
  have m: "Marshal_PickupRequest refusing_world
             (sample_PickupRequest\<lparr>PickupRequest.XsdAttr := xsdAttr,
                PickupRequest.XsiAttr := xsiAttr, PickupRequest.Soap12Attr := soap12Attr\<rparr>)
           = Inr ''<soap12:Envelope/>''"
    by (simp add: refusing_world_def stub_world_def)
  have r: "Post refusing_world \<lparr>Timeout = timeout initial\<rparr> (pickupRequestURL initial)
             ''application/x-www-form-encoded''
             (xml_Header @ ''<soap12:Envelope/>'' @ [CHR 0x0A])
           = Inr \<lparr>Body = Reader ?reply None\<rparr>"
    by (simp add: refusing_world_def stub_world_def)
  have b: "ReadAll (Body \<lparr>Body = Reader ?reply None\<rparr>) = (?reply, None)"
    by simp
  have u: "Unmarshal_PickupRequestResponse refusing_world ?reply zero_PickupRequestResponse
           = (refused_PickupRequestResponse, None)"
    by (simp add: refusing_world_def stub_world_def)
  have c: "PickupConfirmation (PickupRequestResponse.CreateResult refused_PickupRequestResponse)
           = []"
    by (simp add: refused_PickupRequestResponse_def)
  from RequestPickup_empty_confirmation [OF m r b u c] show ?thesis
    by (simp add: refused_PickupRequestResponse_def)
qed

text \<open>
  C5. When the request was marshalled and posted, the body was read and
  \<^verbatim>\<open>xml.Unmarshal\<close> accepted it, \<^verbatim>\<open>RateQuote\<close> returns the parsed response and a
  \<^verbatim>\<open>nil\<close> error, and logs nothing. Nothing is asked of the parsed response: it may hold
  no net charge and no quote identifier.
\<close>

theorem RateQuote_no_result_check:
  assumes "Marshal_RateQuoteRequest w
             (q\<lparr>RateQuoteRequest.XsdAttr := xsdAttr, RateQuoteRequest.XsiAttr := xsiAttr,
                RateQuoteRequest.Soap12Attr := soap12Attr\<rparr>) = Inr xmlBytes"
    and "Post w \<lparr>Timeout = timeout g\<rparr> rateQuoteURL
           ''application/x-www-form-encoded'' (xml_Header @ xmlBytes @ [CHR 0x0A]) = Inr res"
    and "ReadAll (Body res) = (bytes, None)"
    and "Unmarshal_RateQuoteResponse w bytes zero_RateQuoteResponse = (parsed, None)"
  shows "err (RateQuote w g q) = None
       \<and> responseData (RateQuote w g q) = parsed
       \<and> logged (RateQuote w g q) = []"
  using assms by (simp add: RateQuote_def Let_def)

text \<open>The parser yields the zero response: net charge 0, no quote identifier, no error.\<close>

theorem RateQuote_no_result_check_witness:
  "err (RateQuote quiet_world initial sample_RateQuoteRequest) = None
   \<and> NetCharge (RateQuoteResponse.CreateResult
        (responseData (RateQuote quiet_world initial sample_RateQuoteRequest))) = 0
   \<and> QuoteID (RateQuoteResponse.CreateResult
        (responseData (RateQuote quiet_world initial sample_RateQuoteRequest))) = []"
proof -
  have m: "Marshal_RateQuoteRequest quiet_world
             (sample_RateQuoteRequest\<lparr>RateQuoteRequest.XsdAttr := xsdAttr,
                RateQuoteRequest.XsiAttr := xsiAttr, RateQuoteRequest.Soap12Attr := soap12Attr\<rparr>)
           = Inr ''<soap12:Envelope/>''"
    by (simp add: quiet_world_def stub_world_def)
  have r: "Post quiet_world \<lparr>Timeout = timeout initial\<rparr> rateQuoteURL
             ''application/x-www-form-encoded''
             (xml_Header @ ''<soap12:Envelope/>'' @ [CHR 0x0A])
           = Inr \<lparr>Body = Reader [] None\<rparr>"
    by (simp add: quiet_world_def stub_world_def)
  have b: "ReadAll (Body \<lparr>Body = Reader [] None\<rparr>) = ([], None)"
    by simp
  have u: "Unmarshal_RateQuoteResponse quiet_world [] zero_RateQuoteResponse
           = (zero_RateQuoteResponse, None)"
    by (simp add: quiet_world_def stub_world_def)
  from RateQuote_no_result_check [OF m r b u] show ?thesis
    by (simp add: zero_RateQuoteResponse_def)
qed

text \<open>
  C6. When \<^verbatim>\<open>xml.Unmarshal\<close> rejects the body with an error \<open>e\<close>, \<^verbatim>\<open>RequestPickup\<close>
  returns \<open>e\<close> wrapped with \<^verbatim>\<open>ward.RequestPickup - could not read response 2\<close> and
  \<^verbatim>\<open>RateQuote\<close> returns it wrapped with \<^verbatim>\<open>ward.RateQuote - could not read response 2\<close>.
  The response returned is what the parser left in it. \<^verbatim>\<open>RequestPickup\<close> does not look
  at the confirmation then: the error is this one whatever the partial response holds,
  and nothing is logged.
\<close>

theorem malformed_response_is_wrapped:
  "(Marshal_PickupRequest w
       (p\<lparr>PickupRequest.XsdAttr := xsdAttr, PickupRequest.XsiAttr := xsiAttr,
          PickupRequest.Soap12Attr := soap12Attr\<rparr>) = Inr xmlBytes
    \<and> Post w \<lparr>Timeout = timeout g\<rparr> (pickupRequestURL g)
         ''application/x-www-form-encoded'' (xml_Header @ xmlBytes @ [CHR 0x0A]) = Inr res
    \<and> ReadAll (Body res) = (bytes, None)
    \<and> Unmarshal_PickupRequestResponse w bytes zero_PickupRequestResponse = (partial, Some e)
    \<longrightarrow> err (RequestPickup w g p)
          = Some (Wrap e ''ward.RequestPickup - could not read response 2'')
        \<and> responseData (RequestPickup w g p) = partial
        \<and> logged (RequestPickup w g p) = [])
   \<and> (Marshal_RateQuoteRequest w
         (q\<lparr>RateQuoteRequest.XsdAttr := xsdAttr, RateQuoteRequest.XsiAttr := xsiAttr,
            RateQuoteRequest.Soap12Attr := soap12Attr\<rparr>) = Inr xmlBytes'
      \<and> Post w \<lparr>Timeout = timeout g\<rparr> rateQuoteURL
           ''application/x-www-form-encoded'' (xml_Header @ xmlBytes' @ [CHR 0x0A]) = Inr res'
      \<and> ReadAll (Body res') = (bytes', None)
      \<and> Unmarshal_RateQuoteResponse w bytes' zero_RateQuoteResponse = (partial', Some e')
      \<longrightarrow> err (RateQuote w g q) = Some (Wrap e' ''ward.RateQuote - could not read response 2'')
          \<and> responseData (RateQuote w g q) = partial'
          \<and> logged (RateQuote w g q) = [])"
  by (simp add: RequestPickup_def RateQuote_def Let_def)

text \<open>A truncated body, rejected by the parser, for both operations.\<close>

theorem malformed_response_is_wrapped_witness:
  "err (RequestPickup garbled_world initial sample_PickupRequest)
     = Some (Wrap (Foreign ''XML syntax error: unexpected EOF'')
               ''ward.RequestPickup - could not read response 2'')
   \<and> logged (RequestPickup garbled_world initial sample_PickupRequest) = []
   \<and> err (RateQuote garbled_world initial sample_RateQuoteRequest)
     = Some (Wrap (Foreign ''XML syntax error: unexpected EOF'')
               ''ward.RateQuote - could not read response 2'')"
proof -
  let ?e = "Foreign ''XML syntax error: unexpected EOF''"
  have p: "Marshal_PickupRequest garbled_world
       (sample_PickupRequest\<lparr>PickupRequest.XsdAttr := xsdAttr,
          PickupRequest.XsiAttr := xsiAttr, PickupRequest.Soap12Attr := soap12Attr\<rparr>)
         = Inr ''<soap12:Envelope/>''
    \<and> Post garbled_world \<lparr>Timeout = timeout initial\<rparr> (pickupRequestURL initial)
         ''application/x-www-form-encoded'' (xml_Header @ ''<soap12:Envelope/>'' @ [CHR 0x0A])
         = Inr \<lparr>Body = Reader ''<Envelope><Body>'' None\<rparr>
    \<and> ReadAll (Body \<lparr>Body = Reader ''<Envelope><Body>'' None\<rparr>)
         = (''<Envelope><Body>'', None)
    \<and> Unmarshal_PickupRequestResponse garbled_world ''<Envelope><Body>''
         zero_PickupRequestResponse = (zero_PickupRequestResponse, Some ?e)"
    by (simp add: garbled_world_def stub_world_def)
  have q: "Marshal_RateQuoteRequest garbled_world
       (sample_RateQuoteRequest\<lparr>RateQuoteRequest.XsdAttr := xsdAttr,
          RateQuoteRequest.XsiAttr := xsiAttr, RateQuoteRequest.Soap12Attr := soap12Attr\<rparr>)
         = Inr ''<soap12:Envelope/>''
    \<and> Post garbled_world \<lparr>Timeout = timeout initial\<rparr> rateQuoteURL
         ''application/x-www-form-encoded'' (xml_Header @ ''<soap12:Envelope/>'' @ [CHR 0x0A])
         = Inr \<lparr>Body = Reader ''<Envelope><Body>'' None\<rparr>
    \<and> ReadAll (Body \<lparr>Body = Reader ''<Envelope><Body>'' None\<rparr>)
         = (''<Envelope><Body>'', None)
    \<and> Unmarshal_RateQuoteResponse garbled_world ''<Envelope><Body>''
         zero_RateQuoteResponse = (zero_RateQuoteResponse, Some ?e)"
    by (simp add: garbled_world_def stub_world_def)
  from malformed_response_is_wrapped
    [of garbled_world sample_PickupRequest "''<soap12:Envelope/>''" initial
      "\<lparr>Body = Reader ''<Envelope><Body>'' None\<rparr>" "''<Envelope><Body>''"
      zero_PickupRequestResponse ?e sample_RateQuoteRequest "''<soap12:Envelope/>''"
      "\<lparr>Body = Reader ''<Envelope><Body>'' None\<rparr>" "''<Envelope><Body>''"
      zero_RateQuoteResponse ?e] p q
  show ?thesis by blast
qed

subsection \<open>What is sent\<close>

text \<open>
  C4. When \<^verbatim>\<open>xml.Marshal\<close> of the request, taken with its three namespace fields set
  to \<^verbatim>\<open>xsdAttr\<close>, \<^verbatim>\<open>xsiAttr\<close> and \<^verbatim>\<open>soap12Attr\<close>, yields \<open>xmlBytes\<close>, the body of
  the one POST is \<^verbatim>\<open>xml.Header\<close>, then \<open>xmlBytes\<close>, then a newline. This holds for
  \<^verbatim>\<open>RequestPickup\<close> and for \<^verbatim>\<open>RateQuote\<close>.
\<close>

theorem request_body:
  "(Marshal_PickupRequest w
       (p\<lparr>PickupRequest.XsdAttr := xsdAttr, PickupRequest.XsiAttr := xsiAttr,
          PickupRequest.Soap12Attr := soap12Attr\<rparr>) = Inr xmlBytes
    \<longrightarrow> map body (posted (RequestPickup w g p)) = [xml_Header @ xmlBytes @ [CHR 0x0A]])
   \<and> (Marshal_RateQuoteRequest w
         (q\<lparr>RateQuoteRequest.XsdAttr := xsdAttr, RateQuoteRequest.XsiAttr := xsiAttr,
            RateQuoteRequest.Soap12Attr := soap12Attr\<rparr>) = Inr xmlBytes'
      \<longrightarrow> map body (posted (RateQuote w g q)) = [xml_Header @ xmlBytes' @ [CHR 0x0A]])"
  by (simp add: RequestPickup_posted RateQuote_posted)

text \<open>Both sample requests in the quiet world, with the header spelled out.\<close>

theorem request_body_witness:
  \<open>map body (posted (RequestPickup quiet_world initial sample_PickupRequest))
     = [''<?xml version="1.0" encoding="UTF-8"?>'' @ [CHR 0x0A]
        @ ''<soap12:Envelope/>'' @ [CHR 0x0A]]
   \<and> map body (posted (RateQuote quiet_world initial sample_RateQuoteRequest))
     = [''<?xml version="1.0" encoding="UTF-8"?>'' @ [CHR 0x0A]
        @ ''<soap12:Envelope/>'' @ [CHR 0x0A]]\<close>
proof -
  have p: "Marshal_PickupRequest quiet_world
       (sample_PickupRequest\<lparr>PickupRequest.XsdAttr := xsdAttr,
          PickupRequest.XsiAttr := xsiAttr, PickupRequest.Soap12Attr := soap12Attr\<rparr>)
         = Inr ''<soap12:Envelope/>''"
    by (simp add: quiet_world_def stub_world_def)
  have q: "Marshal_RateQuoteRequest quiet_world
       (sample_RateQuoteRequest\<lparr>RateQuoteRequest.XsdAttr := xsdAttr,
          RateQuoteRequest.XsiAttr := xsiAttr, RateQuoteRequest.Soap12Attr := soap12Attr\<rparr>)
         = Inr ''<soap12:Envelope/>''"
    by (simp add: quiet_world_def stub_world_def)
  from request_body [of quiet_world sample_PickupRequest "''<soap12:Envelope/>''" initial
      sample_RateQuoteRequest "''<soap12:Envelope/>''"] p q
  show ?thesis by (simp add: xml_Header_def)
qed

text \<open>
  C8. \<^verbatim>\<open>RequestPickup\<close> and \<^verbatim>\<open>RateQuote\<close> issue at most one HTTP call, a
  \<^verbatim>\<open>Client.Post\<close>: none when marshalling fails and one otherwise. The content type of
  every call they issue is \<^verbatim>\<open>application/x-www-form-encoded\<close>.
\<close>

theorem content_type_of_every_post:
  "map contentType (posted (RequestPickup w g p))
     = (case Marshal_PickupRequest w
               (p\<lparr>PickupRequest.XsdAttr := xsdAttr, PickupRequest.XsiAttr := xsiAttr,
                  PickupRequest.Soap12Attr := soap12Attr\<rparr>) of
          Inl e \<Rightarrow> [] | Inr xmlBytes \<Rightarrow> [''application/x-www-form-encoded''])
   \<and> map contentType (posted (RateQuote w g q))
     = (case Marshal_RateQuoteRequest w
               (q\<lparr>RateQuoteRequest.XsdAttr := xsdAttr, RateQuoteRequest.XsiAttr := xsiAttr,
                  RateQuoteRequest.Soap12Attr := soap12Attr\<rparr>) of
          Inl e \<Rightarrow> [] | Inr xmlBytes \<Rightarrow> [''application/x-www-form-encoded''])
   \<and> length (posted (RequestPickup w g p)) \<le> 1
   \<and> length (posted (RateQuote w g q)) \<le> 1
   \<and> (\<forall>h \<in> set (posted (RequestPickup w g p)) \<union> set (posted (RateQuote w g q)).
         contentType h = ''application/x-www-form-encoded'')"
  by (simp add: RequestPickup_posted RateQuote_posted split: sum.split)

text \<open>Both sample requests in the quiet world: one POST each, with that content type.\<close>

theorem content_type_of_every_post_witness:
  "length (posted (RequestPickup quiet_world initial sample_PickupRequest)) = 1
   \<and> contentType (hd (posted (RequestPickup quiet_world initial sample_PickupRequest)))
       = ''application/x-www-form-encoded''
   \<and> length (posted (RateQuote quiet_world initial sample_RateQuoteRequest)) = 1
   \<and> contentType (hd (posted (RateQuote quiet_world initial sample_RateQuoteRequest)))
       = ''application/x-www-form-encoded''"
proof -
  let ?ps = "posted (RequestPickup quiet_world initial sample_PickupRequest)"
  let ?qs = "posted (RateQuote quiet_world initial sample_RateQuoteRequest)"
  have l: "length ?ps = 1" "length ?qs = 1"
    by (simp_all add: RequestPickup_posted RateQuote_posted quiet_world_def stub_world_def)
  then have "?ps \<noteq> []" "?qs \<noteq> []"
    by auto
  then have m: "hd ?ps \<in> set ?ps \<union> set ?qs" "hd ?qs \<in> set ?ps \<union> set ?qs"
    by simp_all
  from content_type_of_every_post
    [of quiet_world initial sample_PickupRequest sample_RateQuoteRequest]
  have "\<forall>h \<in> set ?ps \<union> set ?qs. contentType h = ''application/x-www-form-encoded''"
    by blast
  with m have "contentType (hd ?ps) = ''application/x-www-form-encoded''"
    "contentType (hd ?qs) = ''application/x-www-form-encoded''"
    by blast+
  with l show ?thesis by simp
qed

subsection \<open>The receiver\<close>

text \<open>
  C10. On every path, \<^verbatim>\<open>RequestPickup\<close> and \<^verbatim>\<open>RateQuote\<close> leave the receiver equal to
  the request they were given with \<^verbatim>\<open>XsdAttr\<close>, \<^verbatim>\<open>XsiAttr\<close> and \<^verbatim>\<open>Soap12Attr\<close>
  overwritten by the package's three URIs, whatever these fields held. The other fields
  (\<^verbatim>\<open>XMLName\<close>, \<^verbatim>\<open>ShipperInfo\<close> and \<^verbatim>\<open>Shipment\<close>, or \<^verbatim>\<open>XMLName\<close> and
  \<^verbatim>\<open>Request\<close>) are as they were.
\<close>

theorem receiver_frame:
  "receiver (RequestPickup w g p)
     = p\<lparr>PickupRequest.XsdAttr := xsdAttr, PickupRequest.XsiAttr := xsiAttr,
         PickupRequest.Soap12Attr := soap12Attr\<rparr>
   \<and> PickupRequest.XsiAttr (receiver (RequestPickup w g p)) = xsiAttr
   \<and> PickupRequest.XsdAttr (receiver (RequestPickup w g p)) = xsdAttr
   \<and> PickupRequest.Soap12Attr (receiver (RequestPickup w g p)) = soap12Attr
   \<and> PickupRequest.XMLName (receiver (RequestPickup w g p)) = PickupRequest.XMLName p
   \<and> ShipperInfo (receiver (RequestPickup w g p)) = ShipperInfo p
   \<and> Shipment (receiver (RequestPickup w g p)) = Shipment p
   \<and> receiver (RateQuote w g q)
     = q\<lparr>RateQuoteRequest.XsdAttr := xsdAttr, RateQuoteRequest.XsiAttr := xsiAttr,
         RateQuoteRequest.Soap12Attr := soap12Attr\<rparr>
   \<and> RateQuoteRequest.XsiAttr (receiver (RateQuote w g q)) = xsiAttr
   \<and> RateQuoteRequest.XsdAttr (receiver (RateQuote w g q)) = xsdAttr
   \<and> RateQuoteRequest.Soap12Attr (receiver (RateQuote w g q)) = soap12Attr
   \<and> RateQuoteRequest.XMLName (receiver (RateQuote w g q)) = RateQuoteRequest.XMLName q
   \<and> Request (receiver (RateQuote w g q)) = Request q"
  by (simp add: RequestPickup_receiver RateQuote_receiver)

end
